theory Spec2Isabelle
  imports Complex_Main "HOL-Library.Word" "HOL-Library.Multiset"
begin

section \<open>JavaScript values as the route handlers see them\<close>

text \<open>
  The handlers of \<^verbatim>\<open>app/api/todos/route.ts\<close> work on values produced by
  \<^verbatim>\<open>request.json()\<close> and \<^verbatim>\<open>searchParams.get\<close>. A JavaScript string is a
  sequence of 16-bit code units.
\<close>

type_synonym jsstring = "16 word list"

definition ascii :: "string \<Rightarrow> jsstring" where
  "ascii cs = map (\<lambda>c. of_nat (of_char c)) cs"

text \<open>
  \<^verbatim>\<open>String.prototype.trim\<close> strips WhiteSpace and LineTerminator code units from
  both ends: TAB, LF, VT, FF, CR, SP, NBSP, the Unicode space separators, LS, PS and
  the byte order mark.
\<close>

definition is_whitespace :: "16 word \<Rightarrow> bool" where
  "is_whitespace c \<longleftrightarrow>
     c = 0x9 \<or> c = 0xA \<or> c = 0xB \<or> c = 0xC \<or> c = 0xD \<or> c = 0x20 \<or> c = 0xA0 \<or>
     c = 0x1680 \<or> (0x2000 \<le> c \<and> c \<le> 0x200A) \<or> c = 0x2028 \<or> c = 0x2029 \<or>
     c = 0x202F \<or> c = 0x205F \<or> c = 0x3000 \<or> c = 0xFEFF"

definition trim :: "jsstring \<Rightarrow> jsstring" where
  "trim s = rev (dropWhile is_whitespace (rev (dropWhile is_whitespace s)))"

text \<open>
  The result of \<^verbatim>\<open>JSON.parse\<close>. An object keeps its members in the order of the
  text; a repeated key is read from its last occurrence. The handlers never compute
  with a number, they only test it for being zero.
\<close>

datatype json =
    JNull
  | JBool bool
  | JNum rat
  | JStr jsstring
  | JArr "json list"
  | JObj "(jsstring \<times> json) list"

text \<open>Errors thrown inside a handler's \<^verbatim>\<open>try\<close> block.\<close>

datatype store_error = ValidationError | NotFound | ConstraintViolation | Unreachable

datatype exn = SyntaxError | TypeError | StoreError store_error

text \<open>
  A variable bound by destructuring holds \<^verbatim>\<open>undefined\<close> (\<open>None\<close>) or a parsed value.
  \<^verbatim>\<open>!v\<close> is true for \<^verbatim>\<open>undefined\<close>, \<^verbatim>\<open>null\<close>, \<^verbatim>\<open>false\<close>, zero and the empty
  string.
\<close>

fun truthy :: "json option \<Rightarrow> bool" where
  "truthy None = False"
| "truthy (Some JNull) = False"
| "truthy (Some (JBool b)) = b"
| "truthy (Some (JNum n)) = (n \<noteq> 0)"
| "truthy (Some (JStr s)) = (s \<noteq> [])"
| "truthy (Some (JArr xs)) = True"
| "truthy (Some (JObj kvs)) = True"

text \<open>
  \<^verbatim>\<open>const { a, b } = body\<close>: destructuring \<^verbatim>\<open>null\<close> throws a TypeError; an object
  yields its members; any other value has none of the properties the handlers name.
\<close>

fun destructure :: "json \<Rightarrow> exn + (jsstring \<Rightarrow> json option)" where
  "destructure JNull = Inl TypeError"
| "destructure (JObj kvs) = Inr (map_of (rev kvs))"
| "destructure v = Inr (\<lambda>k. None)"

text \<open>
  \<^verbatim>\<open>v.trim()\<close>: only a string has a callable \<^verbatim>\<open>trim\<close>. On \<^verbatim>\<open>undefined\<close> and
  \<^verbatim>\<open>null\<close> the property access throws, on every other value the call of a
  non-function throws (a parsed value never holds a function).
\<close>

fun call_trim :: "json option \<Rightarrow> exn + jsstring" where
  "call_trim (Some (JStr s)) = Inr (trim s)"
| "call_trim v = Inl TypeError"

text \<open>
  \<^verbatim>\<open>v?.trim() || null\<close>: the optional chain stops at \<^verbatim>\<open>undefined\<close> and \<^verbatim>\<open>null\<close>;
  the empty string is falsy and becomes \<^verbatim>\<open>null\<close> (\<open>None\<close>).
\<close>

fun optional_trim_or_null :: "json option \<Rightarrow> exn + jsstring option" where
  "optional_trim_or_null None = Inr None"
| "optional_trim_or_null (Some JNull) = Inr None"
| "optional_trim_or_null (Some (JStr s)) = Inr (if trim s = [] then None else Some (trim s))"
| "optional_trim_or_null (Some v) = Inl TypeError"

section \<open>Requests and responses\<close>

text \<open>
  Of a \<^verbatim>\<open>NextRequest\<close> the handlers read the body through \<^verbatim>\<open>request.json()\<close>,
  which rejects with a SyntaxError when the body is not JSON (\<open>None\<close>), and the query
  string of \<^verbatim>\<open>request.url\<close>, here as decoded name and value pairs.
\<close>

record request =
  json_body :: "json option"
  query :: "(jsstring \<times> jsstring) list"

definition request_json :: "request \<Rightarrow> exn + json" where
  "request_json r = (case json_body r of None \<Rightarrow> Inl SyntaxError | Some v \<Rightarrow> Inr v)"

text \<open>\<^verbatim>\<open>searchParams.get(name)\<close>: the first value of that name, or \<^verbatim>\<open>null\<close>.\<close>

definition searchParams_get :: "request \<Rightarrow> jsstring \<Rightarrow> jsstring option" where
  "searchParams_get r k = map_of (query r) k"

record todo =
  id_todo :: jsstring
  title :: jsstring
  description :: "jsstring option"
  completed :: bool
  createdAt :: nat
  updatedAt :: nat

datatype payload =
    TodosJson "todo list"
  | TodoJson todo
  | ErrorJson string
  | MessageJson string

record response =
  status :: nat
  payload :: payload

text \<open>\<^verbatim>\<open>NextResponse.json(data, { status })\<close>; the status is 200 when none is given.\<close>

definition NextResponse_json :: "payload \<Rightarrow> nat \<Rightarrow> response" where
  "NextResponse_json p st = \<lparr>status = st, payload = p\<rparr>"

section \<open>The store\<close>

text \<open>
  Modelled from the spec: the Prisma client and \<^verbatim>\<open>prisma/schema.prisma\<close> are not
  among the sources. The store holds one record type, here the rows in insertion
  order. Each call reads the environment: the clock, the identifier the store
  generates for a new row, and whether the database can be reached. A failing call
  throws and leaves the rows as they were.
\<close>

type_synonym db = "todo list"

record env =
  now :: nat
  new_id :: jsstring
  db_up :: bool

definition ids :: "db \<Rightarrow> jsstring set" where
  "ids s = set (map id_todo s)"

text \<open>
  Modelled from the spec: \<^verbatim>\<open>findMany({ orderBy: { createdAt: order } })\<close> returns
  every row, sorted by \<open>createdAt\<close> in the order asked for (\<^verbatim>\<open>'desc'\<close>: most recently
  created first), rows of equal \<open>createdAt\<close> in insertion order.
\<close>

datatype sort_order = Asc | Desc

definition findMany :: "env \<Rightarrow> db \<Rightarrow> sort_order \<Rightarrow> store_error + todo list" where
  "findMany e s orderBy_createdAt =
     (if \<not> db_up e then Inl Unreachable
      else Inr (case orderBy_createdAt of
                  Asc \<Rightarrow> sort_key (\<lambda>t. int (createdAt t)) s
                | Desc \<Rightarrow> sort_key (\<lambda>t. - int (createdAt t)) s))"

text \<open>
  Modelled from the spec: \<^verbatim>\<open>create({ data: { title, description } })\<close> assigns the
  identifier, \<open>completed = false\<close> and both timestamps, and appends the row. The
  identifier is the primary key: a second row with it is a constraint violation.
\<close>

record create_data =
  data_title :: jsstring
  data_description :: "jsstring option"

definition todo_create :: "env \<Rightarrow> db \<Rightarrow> create_data \<Rightarrow> store_error + (todo \<times> db)" where
  "todo_create e s d =
     (if \<not> db_up e then Inl Unreachable
      else if new_id e \<in> ids s then Inl ConstraintViolation
      else
        let t = \<lparr>id_todo = new_id e, title = data_title d,
                 description = data_description d, completed = False,
                 createdAt = now e, updatedAt = now e\<rparr>
        in Inr (t, s @ [t]))"

text \<open>
  The \<^verbatim>\<open>updateData\<close> object of the update handler: a key that was never assigned is
  \<open>None\<close>. \<open>completed\<close> is assigned the request's value as it came; \<open>title\<close> is the
  result of \<^verbatim>\<open>trim\<close>, a string; \<open>description\<close> is a string or \<^verbatim>\<open>null\<close>.
\<close>

record update_data =
  upd_completed :: "json option"
  upd_title :: "jsstring option"
  upd_description :: "jsstring option option"

text \<open>
  Modelled from the spec: \<open>completed\<close> is a boolean column, so the store refuses a
  value of another type before it touches a row.
\<close>

fun boolean_arg :: "json option \<Rightarrow> store_error + bool option" where
  "boolean_arg None = Inr None"
| "boolean_arg (Some (JBool b)) = Inr (Some b)"
| "boolean_arg (Some v) = Inl ValidationError"

text \<open>
  Modelled from the spec: an update writes the fields given in \<open>data\<close>, leaves the
  others as they are and sets \<open>updatedAt\<close> to the clock's reading.
\<close>

definition apply_update :: "nat \<Rightarrow> bool option \<Rightarrow> update_data \<Rightarrow> todo \<Rightarrow> todo" where
  "apply_update t c d row =
     row\<lparr>completed := (case c of None \<Rightarrow> completed row | Some b \<Rightarrow> b),
         title := (case upd_title d of None \<Rightarrow> title row | Some x \<Rightarrow> x),
         description := (case upd_description d of None \<Rightarrow> description row | Some x \<Rightarrow> x),
         updatedAt := t\<rparr>"

text \<open>
  Modelled from the spec: \<^verbatim>\<open>update({ where: { id }, data })\<close> changes the fields given
  in \<open>data\<close> on the row with that identifier and refreshes \<open>updatedAt\<close>; an
  identifier that is not a string or resolves to no row is a failure.
\<close>

definition todo_update :: "env \<Rightarrow> db \<Rightarrow> json \<Rightarrow> update_data \<Rightarrow> store_error + (todo \<times> db)" where
  "todo_update e s ident d =
     (case ident of
        JStr i \<Rightarrow>
          (case boolean_arg (upd_completed d) of
             Inl err \<Rightarrow> Inl err
           | Inr c \<Rightarrow>
               if \<not> db_up e then Inl Unreachable
               else
                 (case find (\<lambda>row. id_todo row = i) s of
                    None \<Rightarrow> Inl NotFound
                  | Some row \<Rightarrow>
                      Inr (apply_update (now e) c d row,
                           map (\<lambda>r. if id_todo r = i then apply_update (now e) c d r else r) s)))
      | _ \<Rightarrow> Inl ValidationError)"

text \<open>
  Modelled from the spec: \<^verbatim>\<open>delete({ where: { id } })\<close> removes the row with that
  identifier; an identifier that resolves to no row is a failure.
\<close>

definition todo_delete :: "env \<Rightarrow> db \<Rightarrow> jsstring \<Rightarrow> store_error + db" where
  "todo_delete e s i =
     (if \<not> db_up e then Inl Unreachable
      else if i \<notin> ids s then Inl NotFound
      else Inr (filter (\<lambda>row. id_todo row \<noteq> i) s))"

section \<open>The route handlers\<close>

text \<open>
  Each handler is a \<^verbatim>\<open>try\<close> block and a \<^verbatim>\<open>catch\<close> that binds nothing. The block is
  a function to \<open>exn + (response \<times> db)\<close>: \<open>Inl\<close> when a statement throws, which
  happens only before or in the single store call, so the rows are then unchanged.
\<close>

definition GET_try :: "env \<Rightarrow> db \<Rightarrow> exn + (response \<times> db)" where
  "GET_try e s =
     (case findMany e s Desc of
        Inl err \<Rightarrow> Inl (StoreError err)
      | Inr todos \<Rightarrow> Inr (NextResponse_json (TodosJson todos) 200, s))"

definition GET :: "env \<Rightarrow> db \<Rightarrow> response \<times> db" where
  "GET e s =
     (case GET_try e s of
        Inr r \<Rightarrow> r
      | Inl x \<Rightarrow> (NextResponse_json (ErrorJson ''Failed to fetch todos'') 500, s))"

text \<open>\<^verbatim>\<open>!title || title.trim() === ''\<close>, the right operand evaluated only for a truthy title.\<close>

definition title_missing :: "json option \<Rightarrow> exn + bool" where
  "title_missing v =
     (if \<not> truthy v then Inr True
      else (case call_trim v of Inl x \<Rightarrow> Inl x | Inr t \<Rightarrow> Inr (t = [])))"

definition POST_try :: "env \<Rightarrow> db \<Rightarrow> request \<Rightarrow> exn + (response \<times> db)" where
  "POST_try e s request =
     (case request_json request of
        Inl x \<Rightarrow> Inl x
      | Inr body \<Rightarrow>
     (case destructure body of
        Inl x \<Rightarrow> Inl x
      | Inr props \<Rightarrow>
     (let title = props (ascii ''title'');
          description = props (ascii ''description'')
      in
     (case title_missing title of
        Inl x \<Rightarrow> Inl x
      | Inr True \<Rightarrow> Inr (NextResponse_json (ErrorJson ''Title is required'') 400, s)
      | Inr False \<Rightarrow>
     (case call_trim title of
        Inl x \<Rightarrow> Inl x
      | Inr t \<Rightarrow>
     (case optional_trim_or_null description of
        Inl x \<Rightarrow> Inl x
      | Inr d \<Rightarrow>
     (case todo_create e s \<lparr>data_title = t, data_description = d\<rparr> of
        Inl err \<Rightarrow> Inl (StoreError err)
      | Inr (todo, s') \<Rightarrow> Inr (NextResponse_json (TodoJson todo) 201, s'))))))))"

definition POST :: "env \<Rightarrow> db \<Rightarrow> request \<Rightarrow> response \<times> db" where
  "POST e s request =
     (case POST_try e s request of
        Inr r \<Rightarrow> r
      | Inl x \<Rightarrow> (NextResponse_json (ErrorJson ''Failed to create todo'') 500, s))"

text \<open>
  The three guarded assignments to \<^verbatim>\<open>updateData\<close>, in the order of the source:
  \<^verbatim>\<open>v !== undefined\<close> holds for every parsed value, \<^verbatim>\<open>null\<close> included.
\<close>

definition build_updateData ::
  "json option \<Rightarrow> json option \<Rightarrow> json option \<Rightarrow> exn + update_data" where
  "build_updateData completed' title' description' =
     (case (if title' \<noteq> None
            then (case call_trim title' of Inl x \<Rightarrow> Inl x | Inr t \<Rightarrow> Inr (Some t))
            else Inr None) of
        Inl x \<Rightarrow> Inl x
      | Inr t \<Rightarrow>
     (case (if description' \<noteq> None
            then (case optional_trim_or_null description' of
                    Inl x \<Rightarrow> Inl x | Inr d \<Rightarrow> Inr (Some d))
            else Inr None) of
        Inl x \<Rightarrow> Inl x
      | Inr d \<Rightarrow>
          Inr \<lparr>upd_completed = completed', upd_title = t, upd_description = d\<rparr>))"

definition PATCH_try :: "env \<Rightarrow> db \<Rightarrow> request \<Rightarrow> exn + (response \<times> db)" where
  "PATCH_try e s request =
     (case request_json request of
        Inl x \<Rightarrow> Inl x
      | Inr body \<Rightarrow>
     (case destructure body of
        Inl x \<Rightarrow> Inl x
      | Inr props \<Rightarrow>
     (let ident = props (ascii ''id'');
          completed = props (ascii ''completed'');
          title = props (ascii ''title'');
          description = props (ascii ''description'')
      in
     (case ident of
        None \<Rightarrow> Inr (NextResponse_json (ErrorJson ''Todo ID is required'') 400, s)
      | Some i \<Rightarrow>
          if \<not> truthy (Some i)
          then Inr (NextResponse_json (ErrorJson ''Todo ID is required'') 400, s)
          else
     (case build_updateData completed title description of
        Inl x \<Rightarrow> Inl x
      | Inr updateData \<Rightarrow>
     (case todo_update e s i updateData of
        Inl err \<Rightarrow> Inl (StoreError err)
      | Inr (todo, s') \<Rightarrow> Inr (NextResponse_json (TodoJson todo) 200, s')))))))"

definition PATCH :: "env \<Rightarrow> db \<Rightarrow> request \<Rightarrow> response \<times> db" where
  "PATCH e s request =
     (case PATCH_try e s request of
        Inr r \<Rightarrow> r
      | Inl x \<Rightarrow> (NextResponse_json (ErrorJson ''Failed to update todo'') 500, s))"

text \<open>\<^verbatim>\<open>!id\<close> on the query value: \<^verbatim>\<open>null\<close> and the empty string are falsy.\<close>

definition DELETE_try :: "env \<Rightarrow> db \<Rightarrow> request \<Rightarrow> exn + (response \<times> db)" where
  "DELETE_try e s request =
     (case searchParams_get request (ascii ''id'') of
        None \<Rightarrow> Inr (NextResponse_json (ErrorJson ''Todo ID is required'') 400, s)
      | Some i \<Rightarrow>
          if i = []
          then Inr (NextResponse_json (ErrorJson ''Todo ID is required'') 400, s)
          else
            (case todo_delete e s i of
               Inl err \<Rightarrow> Inl (StoreError err)
             | Inr s' \<Rightarrow>
                 Inr (NextResponse_json (MessageJson ''Todo deleted successfully'') 200, s')))"

definition DELETE :: "env \<Rightarrow> db \<Rightarrow> request \<Rightarrow> response \<times> db" where
  "DELETE e s request =
     (case DELETE_try e s request of
        Inr r \<Rightarrow> r
      | Inl x \<Rightarrow> (NextResponse_json (ErrorJson ''Failed to delete todo'') 500, s))"

section \<open>Example requests\<close>

text \<open>Concrete inputs on which the theorems below are exercised.\<close>

definition json_request :: "json \<Rightarrow> request" where
  "json_request b = \<lparr>json_body = Some b, query = []\<rparr>"

definition query_request :: "(jsstring \<times> jsstring) list \<Rightarrow> request" where
  "query_request q = \<lparr>json_body = None, query = q\<rparr>"

definition object :: "(string \<times> json) list \<Rightarrow> json" where
  "object kvs = JObj (map (\<lambda>(k, v). (ascii k, v)) kvs)"

definition env_at :: "nat \<Rightarrow> string \<Rightarrow> env" where
  "env_at t i = \<lparr>now = t, new_id = ascii i, db_up = True\<rparr>"

definition make_todo :: "string \<Rightarrow> string \<Rightarrow> nat \<Rightarrow> todo" where
  "make_todo i t c =
     \<lparr>id_todo = ascii i, title = ascii t, description = None, completed = False,
      createdAt = c, updatedAt = c\<rparr>"

definition milk_todo :: todo where
  "milk_todo =
     \<lparr>id_todo = ascii ''c0'', title = ascii ''milk'', description = Some (ascii ''2 litres''),
      completed = False, createdAt = 3, updatedAt = 3\<rparr>"

definition toggle_body :: json where
  "toggle_body = object [(''id'', JStr (ascii ''c0'')), (''completed'', JBool True)]"

definition blank_description_body :: json where
  "blank_description_body = object [(''id'', JStr (ascii ''c0'')), (''description'', JStr (ascii ''  ''))]"

section \<open>Unfolding the model\<close>

lemmas handler_defs = GET_def GET_try_def POST_def POST_try_def PATCH_def PATCH_try_def
  DELETE_def DELETE_try_def request_json_def searchParams_get_def NextResponse_json_def
  title_missing_def build_updateData_def Let_def

lemmas store_defs = findMany_def todo_create_def todo_update_def
  todo_delete_def apply_update_def ids_def

lemmas string_defs = ascii_def trim_def is_whitespace_def

lemmas example_defs = json_request_def query_request_def object_def env_at_def make_todo_def
  milk_todo_def toggle_body_def blank_description_body_def

section \<open>Bodies that are not JSON\<close>

text \<open>
  C8. \<^verbatim>\<open>request.json()\<close> is awaited inside the \<^verbatim>\<open>try\<close> block of the create and of
  the update handler, so a body that does not parse as JSON ends in the handler's
  catch-all: the answer is the generic 500 of that operation, not a 400, and no row
  changes.
\<close>

theorem unparseable_body_is_server_fault:
  assumes "json_body request = None"
  shows "POST e s request = (\<lparr>status = 500, payload = ErrorJson ''Failed to create todo''\<rparr>, s)
       \<and> PATCH e s request = (\<lparr>status = 500, payload = ErrorJson ''Failed to update todo''\<rparr>, s)"
  using assms by (simp add: handler_defs)

theorem unparseable_body_is_server_fault_witness:
  "json_body \<lparr>json_body = None, query = []\<rparr> = None
   \<and> POST \<lparr>now = 0, new_id = [], db_up = True\<rparr> [] \<lparr>json_body = None, query = []\<rparr>
       = (\<lparr>status = 500, payload = ErrorJson ''Failed to create todo''\<rparr>, [])
   \<and> PATCH \<lparr>now = 0, new_id = [], db_up = True\<rparr> [] \<lparr>json_body = None, query = []\<rparr>
       = (\<lparr>status = 500, payload = ErrorJson ''Failed to update todo''\<rparr>, [])"
  using unparseable_body_is_server_fault [of "\<lparr>json_body = None, query = []\<rparr>"
      "\<lparr>now = 0, new_id = [], db_up = True\<rparr>" "[]"]
  by simp

section \<open>A title that is not a string\<close>

lemma call_trim_non_string: "\<forall>t. v \<noteq> JStr t \<Longrightarrow> call_trim (Some v) = Inl TypeError"
  by (cases v) simp_all

text \<open>
  C9. A create request whose \<open>title\<close> is present and truthy but not a string (a
  number, \<^verbatim>\<open>true\<close>, an array, an object) passes \<^verbatim>\<open>!title\<close>; the call
  \<^verbatim>\<open>title.trim()\<close> then throws inside the \<^verbatim>\<open>try\<close> block. The answer is the generic
  500 \<open>Failed to create todo\<close>, never the 400, and no row is persisted.
\<close>

theorem non_string_title_is_server_fault:
  assumes "json_body request = Some body" and "destructure body = Inr props"
    and "props (ascii ''title'') = Some v" and "truthy (Some v)" and "\<forall>t. v \<noteq> JStr t"
  shows "POST e s request = (\<lparr>status = 500, payload = ErrorJson ''Failed to create todo''\<rparr>, s)"
  using assms by (simp add: handler_defs call_trim_non_string)

theorem non_string_title_is_server_fault_witness:
  "json_body (json_request (object [(''title'', JNum 42)])) = Some (object [(''title'', JNum 42)])
   \<and> destructure (object [(''title'', JNum 42)]) = Inr (map_of [(ascii ''title'', JNum 42)])
   \<and> map_of [(ascii ''title'', JNum 42)] (ascii ''title'') = Some (JNum 42)
   \<and> truthy (Some (JNum 42))
   \<and> (\<forall>t. JNum 42 \<noteq> JStr t)
   \<and> POST (env_at 7 ''c1'') [make_todo ''c0'' ''milk'' 3] (json_request (object [(''title'', JNum 42)]))
       = (\<lparr>status = 500, payload = ErrorJson ''Failed to create todo''\<rparr>, [make_todo ''c0'' ''milk'' 3])"
proof -
  let ?b = "object [(''title'', JNum 42)]"
  let ?p = "map_of [(ascii ''title'', JNum 42)]"
  have h1: "json_body (json_request ?b) = Some ?b" by (simp add: json_request_def)
  have h2: "destructure ?b = Inr ?p" by (simp add: object_def)
  have h3: "?p (ascii ''title'') = Some (JNum 42)" by simp
  have h4: "truthy (Some (JNum 42))" by simp
  have h5: "\<forall>t. JNum 42 \<noteq> JStr t" by simp
  note non_string_title_is_server_fault [OF h1 h2 h3 h4 h5]
  with h1 h2 h3 h4 h5 show ?thesis by blast
qed

section \<open>Create without a title\<close>

text \<open>
  C3. A create request whose body yields its fields and in which \<open>title\<close> is missing,
  or is a string that is empty after trimming, is answered with 400 and the message
  \<open>Title is required\<close>. The rows are unchanged, and the answer does not depend on the
  environment of the store (it is the same when the database is unreachable): the
  store is not called.
\<close>

theorem missing_title_rejected:
  assumes "json_body request = Some body" and "destructure body = Inr props"
    and "props (ascii ''title'') = None
         \<or> (\<exists>t. props (ascii ''title'') = Some (JStr t) \<and> trim t = [])"
  shows "POST e s request = (\<lparr>status = 400, payload = ErrorJson ''Title is required''\<rparr>, s)"
  using assms by (auto simp add: handler_defs)

theorem missing_title_rejected_witness:
  "json_body (json_request (object [(''title'', JStr (ascii ''  ''))]))
     = Some (object [(''title'', JStr (ascii ''  ''))])
   \<and> destructure (object [(''title'', JStr (ascii ''  ''))])
     = Inr (map_of [(ascii ''title'', JStr (ascii ''  ''))])
   \<and> map_of [(ascii ''title'', JStr (ascii ''  ''))] (ascii ''title'') = Some (JStr (ascii ''  ''))
   \<and> trim (ascii ''  '') = []
   \<and> POST (env_at 7 ''c1'') [] (json_request (object [(''title'', JStr (ascii ''  ''))]))
     = (\<lparr>status = 400, payload = ErrorJson ''Title is required''\<rparr>, [])
   \<and> json_body (json_request (object [(''description'', JStr (ascii ''x''))]))
     = Some (object [(''description'', JStr (ascii ''x''))])
   \<and> destructure (object [(''description'', JStr (ascii ''x''))])
     = Inr (map_of [(ascii ''description'', JStr (ascii ''x''))])
   \<and> map_of [(ascii ''description'', JStr (ascii ''x''))] (ascii ''title'') = None
   \<and> POST (env_at 7 ''c1'') [] (json_request (object [(''description'', JStr (ascii ''x''))]))
     = (\<lparr>status = 400, payload = ErrorJson ''Title is required''\<rparr>, [])"
proof -
  let ?b = "object [(''title'', JStr (ascii ''  ''))]"
  let ?p = "map_of [(ascii ''title'', JStr (ascii ''  ''))]"
  let ?b' = "object [(''description'', JStr (ascii ''x''))]"
  let ?p' = "map_of [(ascii ''description'', JStr (ascii ''x''))]"
  have h1: "json_body (json_request ?b) = Some ?b" by (simp add: json_request_def)
  have h2: "destructure ?b = Inr ?p" by (simp add: object_def)
  have h3: "?p (ascii ''title'') = Some (JStr (ascii ''  ''))" by simp
  have h4: "trim (ascii ''  '') = []" by (simp add: string_defs)
  have g1: "json_body (json_request ?b') = Some ?b'" by (simp add: json_request_def)
  have g2: "destructure ?b' = Inr ?p'" by (simp add: object_def)
  have g3: "?p' (ascii ''title'') = None" by (simp add: ascii_def)
  from h3 h4 have h5: "?p (ascii ''title'') = None
      \<or> (\<exists>t. ?p (ascii ''title'') = Some (JStr t) \<and> trim t = [])" by blast
  from g3 have g5: "?p' (ascii ''title'') = None
      \<or> (\<exists>t. ?p' (ascii ''title'') = Some (JStr t) \<and> trim t = [])" by blast
  note a = missing_title_rejected [OF h1 h2 h5, of "env_at 7 ''c1''" "[]"]
  note b = missing_title_rejected [OF g1 g2 g5, of "env_at 7 ''c1''" "[]"]
  from a b h1 h2 h3 h4 g1 g2 g3 show ?thesis by blast
qed

section \<open>Update and delete without an id\<close>

text \<open>
  C7. An update request whose body yields its fields and has no \<open>id\<close>, and a delete
  request whose query string has no \<open>id\<close>, are answered with 400 and the message
  \<open>Todo ID is required\<close>. The rows are unchanged, and the answer is the same in every
  environment of the store: the check comes before any store operation.
\<close>

theorem missing_id_rejected:
  "(json_body request = Some body \<and> destructure body = Inr props \<and> props (ascii ''id'') = None
      \<longrightarrow> PATCH e s request = (\<lparr>status = 400, payload = ErrorJson ''Todo ID is required''\<rparr>, s))
   \<and> (searchParams_get request (ascii ''id'') = None
      \<longrightarrow> DELETE e s request = (\<lparr>status = 400, payload = ErrorJson ''Todo ID is required''\<rparr>, s))"
  by (simp add: handler_defs)

theorem missing_id_rejected_witness:
  "json_body (json_request (object [(''completed'', JBool True)]))
     = Some (object [(''completed'', JBool True)])
   \<and> destructure (object [(''completed'', JBool True)])
     = Inr (map_of [(ascii ''completed'', JBool True)])
   \<and> map_of [(ascii ''completed'', JBool True)] (ascii ''id'') = None
   \<and> PATCH (env_at 7 ''c1'') [make_todo ''c0'' ''milk'' 3] (json_request (object [(''completed'', JBool True)]))
     = (\<lparr>status = 400, payload = ErrorJson ''Todo ID is required''\<rparr>, [make_todo ''c0'' ''milk'' 3])
   \<and> searchParams_get (query_request []) (ascii ''id'') = None
   \<and> DELETE (env_at 7 ''c1'') [make_todo ''c0'' ''milk'' 3] (query_request [])
     = (\<lparr>status = 400, payload = ErrorJson ''Todo ID is required''\<rparr>, [make_todo ''c0'' ''milk'' 3])"
proof -
  let ?b = "object [(''completed'', JBool True)]"
  let ?p = "map_of [(ascii ''completed'', JBool True)]"
  have h1: "json_body (json_request ?b) = Some ?b" by (simp add: json_request_def)
  have h2: "destructure ?b = Inr ?p" by (simp add: object_def)
  have h3: "?p (ascii ''id'') = None" by (simp add: ascii_def)
  have h4: "searchParams_get (query_request []) (ascii ''id'') = None"
    by (simp add: searchParams_get_def query_request_def)
  note a = missing_id_rejected [of "json_request ?b" ?b ?p "env_at 7 ''c1''" "[make_todo ''c0'' ''milk'' 3]"]
  note b = missing_id_rejected [of "query_request []" _ _ "env_at 7 ''c1''" "[make_todo ''c0'' ''milk'' 3]"]
  from a b h1 h2 h3 h4 show ?thesis by blast
qed

section \<open>Identifiers that resolve to no row\<close>

lemma find_unresolved: "k \<notin> ids s \<Longrightarrow> find (\<lambda>row. id_todo row = k) s = None"
  by (auto simp add: ids_def find_None_iff)

lemma todo_update_unresolved:
  assumes "\<forall>k. i = JStr k \<longrightarrow> k \<notin> ids s"
  shows "\<exists>err. todo_update e s i d = Inl err"
proof (cases i)
  case (JStr k)
  with assms have "find (\<lambda>row. id_todo row = k) s = None" by (simp add: find_unresolved)
  with JStr show ?thesis by (simp add: todo_update_def split: sum.splits)
qed (simp_all add: todo_update_def)

lemma PATCH_with_id:
  assumes "json_body request = Some body" and "destructure body = Inr props"
    and "props (ascii ''id'') = Some i" and "truthy (Some i)"
  shows "PATCH e s request =
     (case build_updateData (props (ascii ''completed'')) (props (ascii ''title''))
             (props (ascii ''description'')) of
        Inl x \<Rightarrow> (\<lparr>status = 500, payload = ErrorJson ''Failed to update todo''\<rparr>, s)
      | Inr u \<Rightarrow>
          (case todo_update e s i u of
             Inl err \<Rightarrow> (\<lparr>status = 500, payload = ErrorJson ''Failed to update todo''\<rparr>, s)
           | Inr (t, s') \<Rightarrow> (\<lparr>status = 200, payload = TodoJson t\<rparr>, s')))"
  using assms
  by (simp add: PATCH_def PATCH_try_def request_json_def NextResponse_json_def Let_def
      split: sum.splits prod.splits)

lemma DELETE_with_id:
  assumes "searchParams_get request (ascii ''id'') = Some k" and "k \<noteq> []"
  shows "DELETE e s request =
     (case todo_delete e s k of
        Inl err \<Rightarrow> (\<lparr>status = 500, payload = ErrorJson ''Failed to delete todo''\<rparr>, s)
      | Inr s' \<Rightarrow> (\<lparr>status = 200, payload = MessageJson ''Todo deleted successfully''\<rparr>, s'))"
  using assms
  by (simp add: DELETE_def DELETE_try_def NextResponse_json_def split: sum.splits)

lemma DELETE_unresolved:
  assumes "searchParams_get request (ascii ''id'') = Some k" and "k \<noteq> []" and "k \<notin> ids s"
  shows "DELETE e s request = (\<lparr>status = 500, payload = ErrorJson ''Failed to delete todo''\<rparr>, s)"
  using assms by (simp add: DELETE_with_id todo_delete_def)

lemma PATCH_unresolved:
  assumes "json_body request = Some body" and "destructure body = Inr props"
    and "props (ascii ''id'') = Some i" and "truthy (Some i)"
    and "\<forall>k. i = JStr k \<longrightarrow> k \<notin> ids s"
  shows "PATCH e s request = (\<lparr>status = 500, payload = ErrorJson ''Failed to update todo''\<rparr>, s)"
proof -
  have "\<And>u t s'. todo_update e s i u \<noteq> Inr (t, s')"
    using todo_update_unresolved [OF assms(5), of e] by (metis sum.distinct(1))
  then show ?thesis
    by (simp add: PATCH_with_id [OF assms(1-4)] split: sum.splits)
qed

lemma DELETE_success:
  assumes "searchParams_get request (ascii ''id'') = Some k"
    and "DELETE e s request = (r, s')" and "status r = 200"
  shows "k \<noteq> [] \<and> k \<in> ids s \<and> s' = filter (\<lambda>row. id_todo row \<noteq> k) s"
  using assms
  by (auto simp add: DELETE_def DELETE_try_def NextResponse_json_def todo_delete_def
      split: if_splits)

lemma deleted_id_gone: "k \<notin> ids (filter (\<lambda>row. id_todo row \<noteq> k) s)"
  by (auto simp add: ids_def)

text \<open>
  C5. An update or delete request whose \<open>id\<close> passes the presence check but
  resolves to no row fails in the store call (or, for an update, in building
  \<^verbatim>\<open>updateData\<close> before it); the handler's catch-all answers the generic 500 of the
  operation, \<open>Failed to update todo\<close> or \<open>Failed to delete todo\<close>. No other status
  tells the client that the row was not found, and the rows are unchanged. This
  includes the identifier of a row that a successful delete has just removed: a
  second delete and an update of it get the same 500.
\<close>

theorem unresolved_id_is_server_fault:
  "(json_body request = Some body \<and> destructure body = Inr props
      \<and> props (ascii ''id'') = Some i \<and> truthy (Some i) \<and> (\<forall>k. i = JStr k \<longrightarrow> k \<notin> ids s)
    \<longrightarrow> PATCH e s request = (\<lparr>status = 500, payload = ErrorJson ''Failed to update todo''\<rparr>, s))
   \<and> (searchParams_get request (ascii ''id'') = Some k \<and> k \<noteq> [] \<and> k \<notin> ids s
    \<longrightarrow> DELETE e s request = (\<lparr>status = 500, payload = ErrorJson ''Failed to delete todo''\<rparr>, s))
   \<and> (searchParams_get request (ascii ''id'') = Some k \<and> DELETE e s request = (r, s')
        \<and> status r = 200
    \<longrightarrow> DELETE e' s' request = (\<lparr>status = 500, payload = ErrorJson ''Failed to delete todo''\<rparr>, s')
        \<and> (json_body request' = Some body' \<and> destructure body' = Inr props'
              \<and> props' (ascii ''id'') = Some (JStr k)
            \<longrightarrow> PATCH e' s' request'
                  = (\<lparr>status = 500, payload = ErrorJson ''Failed to update todo''\<rparr>, s')))"
proof (intro conjI impI)
  assume "json_body request = Some body \<and> destructure body = Inr props
      \<and> props (ascii ''id'') = Some i \<and> truthy (Some i) \<and> (\<forall>k. i = JStr k \<longrightarrow> k \<notin> ids s)"
  then show "PATCH e s request = (\<lparr>status = 500, payload = ErrorJson ''Failed to update todo''\<rparr>, s)"
    by (simp add: PATCH_unresolved)
next
  assume "searchParams_get request (ascii ''id'') = Some k \<and> k \<noteq> [] \<and> k \<notin> ids s"
  then show "DELETE e s request = (\<lparr>status = 500, payload = ErrorJson ''Failed to delete todo''\<rparr>, s)"
    by (simp add: DELETE_unresolved)
next
  assume a: "searchParams_get request (ascii ''id'') = Some k \<and> DELETE e s request = (r, s')
        \<and> status r = 200"
  then have k: "k \<noteq> []" and gone: "k \<notin> ids s'"
    using DELETE_success [of request k e s r s'] deleted_id_gone [of k s] by auto
  from a k gone
  show "DELETE e' s' request = (\<lparr>status = 500, payload = ErrorJson ''Failed to delete todo''\<rparr>, s')"
    by (simp add: DELETE_unresolved)
  assume b: "json_body request' = Some body' \<and> destructure body' = Inr props'
              \<and> props' (ascii ''id'') = Some (JStr k)"
  from k have "truthy (Some (JStr k))" by simp
  moreover from gone have "\<forall>k'. JStr k = JStr k' \<longrightarrow> k' \<notin> ids s'" by simp
  ultimately
  show "PATCH e' s' request' = (\<lparr>status = 500, payload = ErrorJson ''Failed to update todo''\<rparr>, s')"
    using b PATCH_unresolved [of request' body' props' "JStr k" s' e'] by blast
qed


theorem unresolved_id_is_server_fault_witness:
  "ascii ''zz'' \<notin> ids [make_todo ''c0'' ''milk'' 3]
   \<and> PATCH (env_at 7 ''c1'') [make_todo ''c0'' ''milk'' 3]
         (json_request (object [(''id'', JStr (ascii ''zz'')), (''completed'', JBool True)]))
       = (\<lparr>status = 500, payload = ErrorJson ''Failed to update todo''\<rparr>, [make_todo ''c0'' ''milk'' 3])
   \<and> DELETE (env_at 7 ''c1'') [make_todo ''c0'' ''milk'' 3] (query_request [(ascii ''id'', ascii ''zz'')])
       = (\<lparr>status = 500, payload = ErrorJson ''Failed to delete todo''\<rparr>, [make_todo ''c0'' ''milk'' 3])
   \<and> DELETE (env_at 7 ''c1'') [make_todo ''c0'' ''milk'' 3] (query_request [(ascii ''id'', ascii ''c0'')])
       = (\<lparr>status = 200, payload = MessageJson ''Todo deleted successfully''\<rparr>, [])
   \<and> DELETE (env_at 8 ''c1'') [] (query_request [(ascii ''id'', ascii ''c0'')])
       = (\<lparr>status = 500, payload = ErrorJson ''Failed to delete todo''\<rparr>, [])
   \<and> PATCH (env_at 8 ''c1'') []
         (json_request (object [(''id'', JStr (ascii ''c0'')), (''completed'', JBool True)]))
       = (\<lparr>status = 500, payload = ErrorJson ''Failed to update todo''\<rparr>, [])"
proof -
  let ?s = "[make_todo ''c0'' ''milk'' 3]"
  let ?b = "object [(''id'', JStr (ascii ''zz'')), (''completed'', JBool True)]"
  let ?p = "map_of (rev [(ascii ''id'', JStr (ascii ''zz'')), (ascii ''completed'', JBool True)])"
  let ?b' = "object [(''id'', JStr (ascii ''c0'')), (''completed'', JBool True)]"
  let ?p' = "map_of (rev [(ascii ''id'', JStr (ascii ''c0'')), (ascii ''completed'', JBool True)])"
  let ?dz = "query_request [(ascii ''id'', ascii ''zz'')]"
  let ?d0 = "query_request [(ascii ''id'', ascii ''c0'')]"
  have h0: "ascii ''zz'' \<notin> ids ?s" by (simp add: ids_def make_todo_def ascii_def)
  have h1: "json_body (json_request ?b) = Some ?b" by (simp add: json_request_def)
  have h2: "destructure ?b = Inr ?p" by (simp add: object_def)
  have h3: "?p (ascii ''id'') = Some (JStr (ascii ''zz''))" by (simp add: ascii_def)
  have h4: "truthy (Some (JStr (ascii ''zz'')))" by (simp add: ascii_def)
  from h0 have h5: "\<forall>k. JStr (ascii ''zz'') = JStr k \<longrightarrow> k \<notin> ids ?s" by simp
  have d1: "searchParams_get ?dz (ascii ''id'') = Some (ascii ''zz'')"
    by (simp add: searchParams_get_def query_request_def)
  have d2: "ascii ''zz'' \<noteq> []" by (simp add: ascii_def)
  have g1: "searchParams_get ?d0 (ascii ''id'') = Some (ascii ''c0'')"
    by (simp add: searchParams_get_def query_request_def)
  have g2: "DELETE (env_at 7 ''c1'') ?s ?d0
      = (\<lparr>status = 200, payload = MessageJson ''Todo deleted successfully''\<rparr>, [])"
    by (simp add: handler_defs store_defs example_defs ascii_def)
  have g3: "status \<lparr>status = 200, payload = MessageJson ''Todo deleted successfully''\<rparr> = 200"
    by simp
  have f1: "json_body (json_request ?b') = Some ?b'" by (simp add: json_request_def)
  have f2: "destructure ?b' = Inr ?p'" by (simp add: object_def)
  have f3: "?p' (ascii ''id'') = Some (JStr (ascii ''c0''))" by (simp add: ascii_def)
  have c1: "PATCH (env_at 7 ''c1'') ?s (json_request ?b)
      = (\<lparr>status = 500, payload = ErrorJson ''Failed to update todo''\<rparr>, ?s)"
    using unresolved_id_is_server_fault [where request = "json_request ?b" and body = ?b
        and props = ?p and i = "JStr (ascii ''zz'')" and s = ?s and e = "env_at 7 ''c1''"]
      h1 h2 h3 h4 h5 by blast
  have c2: "DELETE (env_at 7 ''c1'') ?s ?dz
      = (\<lparr>status = 500, payload = ErrorJson ''Failed to delete todo''\<rparr>, ?s)"
    using unresolved_id_is_server_fault [where request = ?dz and k = "ascii ''zz''"
        and s = ?s and e = "env_at 7 ''c1''"]
      d1 d2 h0 by blast
  have c3: "DELETE (env_at 8 ''c1'') [] ?d0
        = (\<lparr>status = 500, payload = ErrorJson ''Failed to delete todo''\<rparr>, [])
      \<and> PATCH (env_at 8 ''c1'') [] (json_request ?b')
        = (\<lparr>status = 500, payload = ErrorJson ''Failed to update todo''\<rparr>, [])"
    using unresolved_id_is_server_fault [where request = ?d0 and k = "ascii ''c0''"
        and s = ?s and e = "env_at 7 ''c1''" and s' = "[]" and e' = "env_at 8 ''c1''"
        and r = "\<lparr>status = 200, payload = MessageJson ''Todo deleted successfully''\<rparr>"
        and request' = "json_request ?b'" and body' = ?b' and props' = ?p']
      g1 g2 g3 f1 f2 f3 by blast
  from h0 c1 c2 g2 c3 show ?thesis by blast
qed

section \<open>Every handler answers every request\<close>

lemma GET_outcomes:
  "(\<exists>ts. GET e s = (\<lparr>status = 200, payload = TodosJson ts\<rparr>, s))
   \<or> GET e s = (\<lparr>status = 500, payload = ErrorJson ''Failed to fetch todos''\<rparr>, s)"
  by (simp add: GET_def GET_try_def NextResponse_json_def findMany_def)

lemma POST_outcomes:
  "(\<exists>t s'. POST e s request = (\<lparr>status = 201, payload = TodoJson t\<rparr>, s'))
   \<or> POST e s request = (\<lparr>status = 400, payload = ErrorJson ''Title is required''\<rparr>, s)
   \<or> POST e s request = (\<lparr>status = 500, payload = ErrorJson ''Failed to create todo''\<rparr>, s)"
  by (simp add: POST_def POST_try_def NextResponse_json_def Let_def
      split: sum.splits prod.splits bool.splits)

lemma PATCH_outcomes:
  "(\<exists>t s'. PATCH e s request = (\<lparr>status = 200, payload = TodoJson t\<rparr>, s'))
   \<or> PATCH e s request = (\<lparr>status = 400, payload = ErrorJson ''Todo ID is required''\<rparr>, s)
   \<or> PATCH e s request = (\<lparr>status = 500, payload = ErrorJson ''Failed to update todo''\<rparr>, s)"
  by (simp add: PATCH_def PATCH_try_def NextResponse_json_def Let_def
      split: sum.splits prod.splits option.splits)

lemma DELETE_outcomes:
  "(\<exists>s'. DELETE e s request
        = (\<lparr>status = 200, payload = MessageJson ''Todo deleted successfully''\<rparr>, s'))
   \<or> DELETE e s request = (\<lparr>status = 400, payload = ErrorJson ''Todo ID is required''\<rparr>, s)
   \<or> DELETE e s request = (\<lparr>status = 500, payload = ErrorJson ''Failed to delete todo''\<rparr>, s)"
  by (simp add: DELETE_def DELETE_try_def NextResponse_json_def
      split: sum.splits option.splits)

text \<open>
  C10. Each of the four handlers is a total function from the request, the
  environment and the rows to one response. The status is 200 or 500 for the list,
  201, 400 or 500 for create, and 200, 400 or 500 for update and delete. Whatever is
  thrown inside a \<^verbatim>\<open>try\<close> block is absorbed by that handler's \<^verbatim>\<open>catch\<close>: the handler
  then answers its 500 and the rows are unchanged.
\<close>

theorem handlers_total:
  "status (fst (GET e s)) \<in> {200, 500}
   \<and> status (fst (POST e s request)) \<in> {201, 400, 500}
   \<and> status (fst (PATCH e s request)) \<in> {200, 400, 500}
   \<and> status (fst (DELETE e s request)) \<in> {200, 400, 500}
   \<and> (GET_try e s = Inl x
        \<longrightarrow> GET e s = (\<lparr>status = 500, payload = ErrorJson ''Failed to fetch todos''\<rparr>, s))
   \<and> (POST_try e s request = Inl x
        \<longrightarrow> POST e s request = (\<lparr>status = 500, payload = ErrorJson ''Failed to create todo''\<rparr>, s))
   \<and> (PATCH_try e s request = Inl x
        \<longrightarrow> PATCH e s request = (\<lparr>status = 500, payload = ErrorJson ''Failed to update todo''\<rparr>, s))
   \<and> (DELETE_try e s request = Inl x
        \<longrightarrow> DELETE e s request = (\<lparr>status = 500, payload = ErrorJson ''Failed to delete todo''\<rparr>, s))"
proof -
  have "status (fst (GET e s)) \<in> {200, 500}"
    using GET_outcomes [of e s] by auto
  moreover have "status (fst (POST e s request)) \<in> {201, 400, 500}"
    using POST_outcomes [of e s request] by auto
  moreover have "status (fst (PATCH e s request)) \<in> {200, 400, 500}"
    using PATCH_outcomes [of e s request] by auto
  moreover have "status (fst (DELETE e s request)) \<in> {200, 400, 500}"
    using DELETE_outcomes [of e s request] by auto
  ultimately show ?thesis
    by (simp add: GET_def POST_def PATCH_def DELETE_def NextResponse_json_def)
qed


theorem handlers_total_witness:
  "GET_try \<lparr>now = 7, new_id = [], db_up = False\<rparr> [] = Inl (StoreError Unreachable)
   \<and> GET \<lparr>now = 7, new_id = [], db_up = False\<rparr> []
       = (\<lparr>status = 500, payload = ErrorJson ''Failed to fetch todos''\<rparr>, [])
   \<and> POST_try \<lparr>now = 7, new_id = [], db_up = False\<rparr> [] (query_request [(ascii ''id'', ascii ''c0'')])
       = Inl SyntaxError
   \<and> POST \<lparr>now = 7, new_id = [], db_up = False\<rparr> [] (query_request [(ascii ''id'', ascii ''c0'')])
       = (\<lparr>status = 500, payload = ErrorJson ''Failed to create todo''\<rparr>, [])
   \<and> PATCH_try \<lparr>now = 7, new_id = [], db_up = False\<rparr> [] (query_request [(ascii ''id'', ascii ''c0'')])
       = Inl SyntaxError
   \<and> PATCH \<lparr>now = 7, new_id = [], db_up = False\<rparr> [] (query_request [(ascii ''id'', ascii ''c0'')])
       = (\<lparr>status = 500, payload = ErrorJson ''Failed to update todo''\<rparr>, [])
   \<and> DELETE_try \<lparr>now = 7, new_id = [], db_up = False\<rparr> [] (query_request [(ascii ''id'', ascii ''c0'')])
       = Inl (StoreError Unreachable)
   \<and> DELETE \<lparr>now = 7, new_id = [], db_up = False\<rparr> [] (query_request [(ascii ''id'', ascii ''c0'')])
       = (\<lparr>status = 500, payload = ErrorJson ''Failed to delete todo''\<rparr>, [])
   \<and> status (fst (GET \<lparr>now = 7, new_id = [], db_up = False\<rparr> [])) \<in> {200, 500}
   \<and> status (fst (POST \<lparr>now = 7, new_id = [], db_up = False\<rparr> []
         (query_request [(ascii ''id'', ascii ''c0'')]))) \<in> {201, 400, 500}
   \<and> status (fst (PATCH \<lparr>now = 7, new_id = [], db_up = False\<rparr> []
         (query_request [(ascii ''id'', ascii ''c0'')]))) \<in> {200, 400, 500}
   \<and> status (fst (DELETE \<lparr>now = 7, new_id = [], db_up = False\<rparr> []
         (query_request [(ascii ''id'', ascii ''c0'')]))) \<in> {200, 400, 500}"
proof -
  let ?e = "\<lparr>now = 7, new_id = [], db_up = False\<rparr>"
  let ?r = "query_request [(ascii ''id'', ascii ''c0'')]"
  have g: "GET_try ?e [] = Inl (StoreError Unreachable)"
    by (simp add: GET_try_def findMany_def)
  have p: "POST_try ?e [] ?r = Inl SyntaxError"
    by (simp add: POST_try_def request_json_def query_request_def)
  have u: "PATCH_try ?e [] ?r = Inl SyntaxError"
    by (simp add: PATCH_try_def request_json_def query_request_def)
  have d: "DELETE_try ?e [] ?r = Inl (StoreError Unreachable)"
    by (simp add: DELETE_try_def searchParams_get_def query_request_def todo_delete_def ascii_def)
  note a = handlers_total [of ?e "[]" ?r "StoreError Unreachable"]
  note b = handlers_total [of ?e "[]" ?r SyntaxError]
  note s1 = a [THEN conjunct1]
  note s2 = a [THEN conjunct2, THEN conjunct1]
  note s3 = a [THEN conjunct2, THEN conjunct2, THEN conjunct1]
  note s4 = a [THEN conjunct2, THEN conjunct2, THEN conjunct2, THEN conjunct1]
  note a' = a [THEN conjunct2, THEN conjunct2, THEN conjunct2, THEN conjunct2]
  note b' = b [THEN conjunct2, THEN conjunct2, THEN conjunct2, THEN conjunct2]
  note c1 = a' [THEN conjunct1, THEN mp, OF g]
  note c2 = b' [THEN conjunct2, THEN conjunct1, THEN mp, OF p]
  note c3 = b' [THEN conjunct2, THEN conjunct2, THEN conjunct1, THEN mp, OF u]
  note c4 = a' [THEN conjunct2, THEN conjunct2, THEN conjunct2, THEN mp, OF d]
  from g c1 p c2 u c3 d c4 s1 s2 s3 s4 show ?thesis by (intro conjI)
qed

section \<open>Create with a title\<close>

lemma trim_Nil: "trim [] = []"
  by (simp add: trim_def)

lemma POST_with_title:
  assumes "json_body request = Some body" and "destructure body = Inr props"
    and "props (ascii ''title'') = Some (JStr t)" and "trim t \<noteq> []"
  shows "POST e s request =
     (case optional_trim_or_null (props (ascii ''description'')) of
        Inl x \<Rightarrow> (\<lparr>status = 500, payload = ErrorJson ''Failed to create todo''\<rparr>, s)
      | Inr d \<Rightarrow>
          (case todo_create e s \<lparr>data_title = trim t, data_description = d\<rparr> of
             Inl err \<Rightarrow> (\<lparr>status = 500, payload = ErrorJson ''Failed to create todo''\<rparr>, s)
           | Inr (todo, s') \<Rightarrow> (\<lparr>status = 201, payload = TodoJson todo\<rparr>, s')))"
proof -
  from assms(4) have "t \<noteq> []" using trim_Nil by auto
  with assms show ?thesis
    by (simp add: POST_def POST_try_def request_json_def NextResponse_json_def
        title_missing_def Let_def split: sum.splits prod.splits)
qed

text \<open>
  C2. A create request whose \<open>title\<close> is a string that is not empty after trimming,
  and whose \<open>description\<close> is omitted, \<^verbatim>\<open>null\<close> or a string, is answered 201 with the
  new task when the store accepts the insert (the database is reachable and the
  generated identifier is new). The task holds the trimmed title; its description is
  absent when the field was omitted, \<^verbatim>\<open>null\<close> or empty after trimming, and the trimmed
  string otherwise; \<open>completed\<close> is false and both timestamps are the clock's reading.
  Exactly one row is added: the new task, after the rows that were there.
\<close>

theorem create_stores_trimmed_fields:
  assumes "json_body request = Some body" and "destructure body = Inr props"
    and "props (ascii ''title'') = Some (JStr t)" and "trim t \<noteq> []"
    and "props (ascii ''description'') = None \<or> props (ascii ''description'') = Some JNull
         \<or> (\<exists>d. props (ascii ''description'') = Some (JStr d))"
    and "db_up e" and "new_id e \<notin> ids s"
  shows "\<exists>todo. POST e s request = (\<lparr>status = 201, payload = TodoJson todo\<rparr>, s @ [todo])
      \<and> length (s @ [todo]) = length s + 1
      \<and> title todo = trim t
      \<and> (props (ascii ''description'') = None \<longrightarrow> description todo = None)
      \<and> (props (ascii ''description'') = Some JNull \<longrightarrow> description todo = None)
      \<and> (\<forall>d. props (ascii ''description'') = Some (JStr d) \<and> trim d = []
            \<longrightarrow> description todo = None)
      \<and> (\<forall>d. props (ascii ''description'') = Some (JStr d) \<and> trim d \<noteq> []
            \<longrightarrow> description todo = Some (trim d))
      \<and> id_todo todo = new_id e \<and> completed todo = False
      \<and> createdAt todo = now e \<and> updatedAt todo = now e"
proof -
  define d where "d = (case props (ascii ''description'') of
      Some (JStr x) \<Rightarrow> if trim x = [] then None else Some (trim x) | _ \<Rightarrow> None)"
  define todo where "todo = \<lparr>id_todo = new_id e, title = trim t, description = d,
      completed = False, createdAt = now e, updatedAt = now e\<rparr>"
  from assms(5) have "optional_trim_or_null (props (ascii ''description'')) = Inr d"
    by (auto simp add: d_def)
  with assms(6,7)
  have "POST e s request = (\<lparr>status = 201, payload = TodoJson todo\<rparr>, s @ [todo])"
    by (simp add: POST_with_title [OF assms(1-4)] todo_create_def Let_def todo_def)
  moreover have "title todo = trim t" "id_todo todo = new_id e" "completed todo = False"
    "createdAt todo = now e" "updatedAt todo = now e" "description todo = d"
    by (simp_all add: todo_def)
  ultimately show ?thesis
    by (intro exI [of _ todo]) (auto simp add: d_def)
qed


theorem create_stores_trimmed_fields_witness:
  "json_body (json_request (object [(''title'', JStr (ascii '' milk '')),
                                     (''description'', JStr (ascii ''  ''))]))
     = Some (object [(''title'', JStr (ascii '' milk '')), (''description'', JStr (ascii ''  ''))])
   \<and> trim (ascii '' milk '') = ascii ''milk''
   \<and> trim (ascii ''  '') = []
   \<and> db_up (env_at 10 ''c1'')
   \<and> new_id (env_at 10 ''c1'') \<notin> ids [make_todo ''c0'' ''eggs'' 3]
   \<and> POST (env_at 10 ''c1'') [make_todo ''c0'' ''eggs'' 3]
        (json_request (object [(''title'', JStr (ascii '' milk '')),
                               (''description'', JStr (ascii ''  ''))]))
     = (\<lparr>status = 201, payload = TodoJson (make_todo ''c1'' ''milk'' 10)\<rparr>,
        [make_todo ''c0'' ''eggs'' 3, make_todo ''c1'' ''milk'' 10])"
proof -
  let ?kvs = "[(ascii ''title'', JStr (ascii '' milk '')), (ascii ''description'', JStr (ascii ''  ''))]"
  let ?b = "object [(''title'', JStr (ascii '' milk '')), (''description'', JStr (ascii ''  ''))]"
  let ?p = "map_of (rev ?kvs)"
  let ?e = "env_at 10 ''c1''"
  let ?s = "[make_todo ''c0'' ''eggs'' 3]"
  have h1: "json_body (json_request ?b) = Some ?b" by (simp add: json_request_def)
  have h2: "destructure ?b = Inr ?p" by (simp add: object_def)
  have h3: "?p (ascii ''title'') = Some (JStr (ascii '' milk ''))" by (simp add: ascii_def)
  have t1: "trim (ascii '' milk '') = ascii ''milk''" by (simp add: string_defs)
  have t2: "trim (ascii ''  '') = []" by (simp add: string_defs)
  from t1 have h4: "trim (ascii '' milk '') \<noteq> []" by (simp add: ascii_def)
  have d: "?p (ascii ''description'') = Some (JStr (ascii ''  ''))" by (simp add: ascii_def)
  then have h5: "?p (ascii ''description'') = None \<or> ?p (ascii ''description'') = Some JNull
      \<or> (\<exists>d. ?p (ascii ''description'') = Some (JStr d))" by blast
  have h6: "db_up ?e" by (simp add: env_at_def)
  have h7: "new_id ?e \<notin> ids ?s" by (simp add: env_at_def ids_def make_todo_def ascii_def)
  from create_stores_trimmed_fields [OF h1 h2 h3 h4 h5 h6 h7]
  obtain todo where p: "POST ?e ?s (json_request ?b)
        = (\<lparr>status = 201, payload = TodoJson todo\<rparr>, ?s @ [todo])"
    and f: "title todo = trim (ascii '' milk '')" "id_todo todo = new_id ?e"
      "completed todo = False" "createdAt todo = now ?e" "updatedAt todo = now ?e"
    and g: "\<forall>d. ?p (ascii ''description'') = Some (JStr d) \<and> trim d = []
            \<longrightarrow> description todo = None"
    by blast
  from g d t2 have "description todo = None" by blast
  with f t1 have "todo = make_todo ''c1'' ''milk'' 10"
    by (simp add: make_todo_def env_at_def)
  with p h1 t1 t2 h6 h7 show ?thesis by simp
qed

section \<open>Update changes the fields that were sent\<close>

lemma build_updateData_Inr:
  assumes "build_updateData c t d = Inr u"
  shows "upd_completed u = c"
    and "t = None \<Longrightarrow> upd_title u = None"
    and "t = Some (JStr x) \<Longrightarrow> upd_title u = Some (trim x)"
    and "d = None \<Longrightarrow> upd_description u = None"
    and "d = Some JNull \<Longrightarrow> upd_description u = Some None"
    and "d = Some (JStr y) \<Longrightarrow> upd_description u = Some (if trim y = [] then None else Some (trim y))"
  using assms by (auto simp add: build_updateData_def split: if_splits sum.splits)

lemma boolean_arg_Inr:
  assumes "boolean_arg v = Inr c"
  shows "v = None \<Longrightarrow> c = None" and "v = Some (JBool b) \<Longrightarrow> c = Some b"
  using assms by auto

lemma todo_update_Inr:
  assumes "todo_update e s i u = Inr (t, s')"
  shows "\<exists>k c. i = JStr k \<and> boolean_arg (upd_completed u) = Inr c
           \<and> s' = map (\<lambda>r. if id_todo r = k then apply_update (now e) c u r else r) s"
  using assms
  by (auto simp add: todo_update_def split: json.splits sum.splits if_splits option.splits)

lemma PATCH_cases:
  assumes "json_body request = Some body" and "destructure body = Inr props"
    and "props (ascii ''id'') = Some i" and "PATCH e s request = (r, s')"
  shows "(s' = s \<and> status r \<noteq> 200)
       \<or> (\<exists>u t. build_updateData (props (ascii ''completed'')) (props (ascii ''title''))
                    (props (ascii ''description'')) = Inr u
                \<and> todo_update e s i u = Inr (t, s'))"
  using assms
  by (auto simp add: PATCH_def PATCH_try_def request_json_def NextResponse_json_def Let_def
      split: sum.splits prod.splits if_splits)

lemma apply_update_frame:
  "id_todo (apply_update t c u row) = id_todo row"
  "createdAt (apply_update t c u row) = createdAt row"
  "completed (apply_update t c u row) = (case c of None \<Rightarrow> completed row | Some b \<Rightarrow> b)"
  "title (apply_update t c u row) = (case upd_title u of None \<Rightarrow> title row | Some x \<Rightarrow> x)"
  "description (apply_update t c u row)
     = (case upd_description u of None \<Rightarrow> description row | Some x \<Rightarrow> x)"
  by (simp_all add: apply_update_def)

lemma PATCH_succeeds:
  assumes "json_body request = Some body" and "destructure body = Inr props"
    and "props (ascii ''id'') = Some (JStr k)" and "k \<noteq> []" and "k \<in> ids s" and "db_up e"
    and "props (ascii ''completed'') = None \<or> (\<exists>c. props (ascii ''completed'') = Some (JBool c))"
    and "props (ascii ''title'') = None \<or> (\<exists>t. props (ascii ''title'') = Some (JStr t))"
    and "props (ascii ''description'') = None \<or> props (ascii ''description'') = Some JNull
         \<or> (\<exists>d. props (ascii ''description'') = Some (JStr d))"
  shows "status (fst (PATCH e s request)) = 200"
proof -
  from assms(8,9) obtain u where u: "build_updateData (props (ascii ''completed''))
      (props (ascii ''title'')) (props (ascii ''description'')) = Inr u"
    by (auto simp add: build_updateData_def)
  then have c: "upd_completed u = props (ascii ''completed'')" by (rule build_updateData_Inr)
  from assms(5) obtain row where "find (\<lambda>row. id_todo row = k) s = Some row"
    by (cases "find (\<lambda>row. id_todo row = k) s") (auto simp add: find_None_iff ids_def)
  with assms(6,7) c obtain t s' where "todo_update e s (JStr k) u = Inr (t, s')"
    by (auto simp add: todo_update_def)
  with u assms(4) show ?thesis
    by (simp add: PATCH_with_id [OF assms(1-3)])
qed

text \<open>
  C1. For an update request whose body contains an \<open>id\<close>, whatever the answer: the
  store keeps as many rows, in the same places, each with its identifier and its
  creation time; a row keeps its \<open>completed\<close> flag when the body has no \<open>completed\<close>,
  its title when the body has no \<open>title\<close>, and its description when the body has no
  \<open>description\<close>; a row with another identifier is not touched at all. When the
  answer is 200, the row with the identifier holds what was sent: the boolean sent as
  \<open>completed\<close>, the trimmed string sent as \<open>title\<close>, and for \<open>description\<close> the
  trimmed string, or no description when \<^verbatim>\<open>null\<close> or a string that is empty after
  trimming was sent. The answer is 200 when the identifier is a non-empty string that
  resolves to a row, the database is reachable, and each field that was sent has the
  type of its column.
\<close>

theorem update_changes_only_present_fields:
  assumes "json_body request = Some body" and "destructure body = Inr props"
    and "props (ascii ''id'') = Some i"
    and "PATCH e s request = (r, s')"
  shows "length s' = length s
    \<and> (\<forall>n. n < length s \<longrightarrow>
         id_todo (s' ! n) = id_todo (s ! n) \<and> createdAt (s' ! n) = createdAt (s ! n)
       \<and> (props (ascii ''completed'') = None \<longrightarrow> completed (s' ! n) = completed (s ! n))
       \<and> (props (ascii ''title'') = None \<longrightarrow> title (s' ! n) = title (s ! n))
       \<and> (props (ascii ''description'') = None \<longrightarrow> description (s' ! n) = description (s ! n))
       \<and> (i \<noteq> JStr (id_todo (s ! n)) \<longrightarrow> s' ! n = s ! n)
       \<and> (status r = 200 \<and> i = JStr (id_todo (s ! n)) \<longrightarrow>
            (\<forall>c. props (ascii ''completed'') = Some (JBool c) \<longrightarrow> completed (s' ! n) = c)
          \<and> (\<forall>t. props (ascii ''title'') = Some (JStr t) \<longrightarrow> title (s' ! n) = trim t)
          \<and> (props (ascii ''description'') = Some JNull \<longrightarrow> description (s' ! n) = None)
          \<and> (\<forall>d. props (ascii ''description'') = Some (JStr d) \<and> trim d = []
                \<longrightarrow> description (s' ! n) = None)
          \<and> (\<forall>d. props (ascii ''description'') = Some (JStr d) \<and> trim d \<noteq> []
                \<longrightarrow> description (s' ! n) = Some (trim d))))
    \<and> (db_up e \<and> (\<exists>k. i = JStr k \<and> k \<noteq> [] \<and> k \<in> ids s)
         \<and> (props (ascii ''completed'') = None \<or> (\<exists>c. props (ascii ''completed'') = Some (JBool c)))
         \<and> (props (ascii ''title'') = None \<or> (\<exists>t. props (ascii ''title'') = Some (JStr t)))
         \<and> (props (ascii ''description'') = None \<or> props (ascii ''description'') = Some JNull
              \<or> (\<exists>d. props (ascii ''description'') = Some (JStr d)))
       \<longrightarrow> status r = 200)"
proof -
  have ok: "status r = 200"
    if "db_up e" and "\<exists>k. i = JStr k \<and> k \<noteq> [] \<and> k \<in> ids s"
      and "props (ascii ''completed'') = None \<or> (\<exists>c. props (ascii ''completed'') = Some (JBool c))"
      and "props (ascii ''title'') = None \<or> (\<exists>t. props (ascii ''title'') = Some (JStr t))"
      and "props (ascii ''description'') = None \<or> props (ascii ''description'') = Some JNull
           \<or> (\<exists>d. props (ascii ''description'') = Some (JStr d))"
  proof -
    from that(2) obtain k where k: "i = JStr k" "k \<noteq> []" "k \<in> ids s" by blast
    from assms(3) k(1) have "props (ascii ''id'') = Some (JStr k)" by simp
    from PATCH_succeeds [OF assms(1,2) this k(2,3) that(1,3,4,5)] assms(4)
    show ?thesis by simp
  qed
  then have success: "(db_up e \<and> (\<exists>k. i = JStr k \<and> k \<noteq> [] \<and> k \<in> ids s)
         \<and> (props (ascii ''completed'') = None \<or> (\<exists>c. props (ascii ''completed'') = Some (JBool c)))
         \<and> (props (ascii ''title'') = None \<or> (\<exists>t. props (ascii ''title'') = Some (JStr t)))
         \<and> (props (ascii ''description'') = None \<or> props (ascii ''description'') = Some JNull
              \<or> (\<exists>d. props (ascii ''description'') = Some (JStr d)))
       \<longrightarrow> status r = 200)"
    by blast
  have frame: "length s' = length s
    \<and> (\<forall>n. n < length s \<longrightarrow>
         id_todo (s' ! n) = id_todo (s ! n) \<and> createdAt (s' ! n) = createdAt (s ! n)
       \<and> (props (ascii ''completed'') = None \<longrightarrow> completed (s' ! n) = completed (s ! n))
       \<and> (props (ascii ''title'') = None \<longrightarrow> title (s' ! n) = title (s ! n))
       \<and> (props (ascii ''description'') = None \<longrightarrow> description (s' ! n) = description (s ! n))
       \<and> (i \<noteq> JStr (id_todo (s ! n)) \<longrightarrow> s' ! n = s ! n)
       \<and> (status r = 200 \<and> i = JStr (id_todo (s ! n)) \<longrightarrow>
            (\<forall>c. props (ascii ''completed'') = Some (JBool c) \<longrightarrow> completed (s' ! n) = c)
          \<and> (\<forall>t. props (ascii ''title'') = Some (JStr t) \<longrightarrow> title (s' ! n) = trim t)
          \<and> (props (ascii ''description'') = Some JNull \<longrightarrow> description (s' ! n) = None)
          \<and> (\<forall>d. props (ascii ''description'') = Some (JStr d) \<and> trim d = []
                \<longrightarrow> description (s' ! n) = None)
          \<and> (\<forall>d. props (ascii ''description'') = Some (JStr d) \<and> trim d \<noteq> []
                \<longrightarrow> description (s' ! n) = Some (trim d))))"
  proof -
    from PATCH_cases [OF assms]
    consider (failed) "s' = s" "status r \<noteq> 200"
      | (updated) u t where "build_updateData (props (ascii ''completed''))
            (props (ascii ''title'')) (props (ascii ''description'')) = Inr u"
          "todo_update e s i u = Inr (t, s')"
      by blast
    then show ?thesis
    proof cases
      case failed
      then show ?thesis by simp
    next
      case updated
      note b = build_updateData_Inr [OF updated(1)]
      from todo_update_Inr [OF updated(2)] obtain k c where i: "i = JStr k"
        and c: "boolean_arg (upd_completed u) = Inr c"
        and s': "s' = map (\<lambda>r. if id_todo r = k then apply_update (now e) c u r else r) s"
        by blast
      from c b(1) have c': "boolean_arg (props (ascii ''completed'')) = Inr c" by simp
      note cb = boolean_arg_Inr [OF c']
      have len: "length s' = length s" by (simp add: s')
      have row: "id_todo (s' ! n) = id_todo (s ! n) \<and> createdAt (s' ! n) = createdAt (s ! n)
       \<and> (props (ascii ''completed'') = None \<longrightarrow> completed (s' ! n) = completed (s ! n))
       \<and> (props (ascii ''title'') = None \<longrightarrow> title (s' ! n) = title (s ! n))
       \<and> (props (ascii ''description'') = None \<longrightarrow> description (s' ! n) = description (s ! n))
       \<and> (i \<noteq> JStr (id_todo (s ! n)) \<longrightarrow> s' ! n = s ! n)
       \<and> (status r = 200 \<and> i = JStr (id_todo (s ! n)) \<longrightarrow>
            (\<forall>c. props (ascii ''completed'') = Some (JBool c) \<longrightarrow> completed (s' ! n) = c)
          \<and> (\<forall>t. props (ascii ''title'') = Some (JStr t) \<longrightarrow> title (s' ! n) = trim t)
          \<and> (props (ascii ''description'') = Some JNull \<longrightarrow> description (s' ! n) = None)
          \<and> (\<forall>d. props (ascii ''description'') = Some (JStr d) \<and> trim d = []
                \<longrightarrow> description (s' ! n) = None)
          \<and> (\<forall>d. props (ascii ''description'') = Some (JStr d) \<and> trim d \<noteq> []
                \<longrightarrow> description (s' ! n) = Some (trim d)))" if n: "n < length s" for n
      proof (cases "id_todo (s ! n) = k")
        case False
        with n show ?thesis by (simp add: s' i)
      next
        case True
        with n have new: "s' ! n = apply_update (now e) c u (s ! n)" by (simp add: s')
        show ?thesis
          using b(2-6) cb True
          by (auto simp add: new apply_update_frame i)
      qed
      from len row show ?thesis by blast
    qed
  qed
  show ?thesis
    by (rule conjI [OF frame [THEN conjunct1] conjI [OF frame [THEN conjunct2] success]])
qed


theorem update_changes_only_present_fields_witness:
  "json_body (json_request toggle_body) = Some toggle_body
   \<and> PATCH (env_at 20 ''c9'') [milk_todo, make_todo ''c1'' ''eggs'' 5] (json_request toggle_body)
       = (\<lparr>status = 200, payload = TodoJson (milk_todo\<lparr>completed := True, updatedAt := 20\<rparr>)\<rparr>,
          [milk_todo\<lparr>completed := True, updatedAt := 20\<rparr>, make_todo ''c1'' ''eggs'' 5])
   \<and> completed ([milk_todo\<lparr>completed := True, updatedAt := 20\<rparr>, make_todo ''c1'' ''eggs'' 5] ! 0) = True
   \<and> title ([milk_todo\<lparr>completed := True, updatedAt := 20\<rparr>, make_todo ''c1'' ''eggs'' 5] ! 0)
       = title ([milk_todo, make_todo ''c1'' ''eggs'' 5] ! 0)
   \<and> description ([milk_todo\<lparr>completed := True, updatedAt := 20\<rparr>, make_todo ''c1'' ''eggs'' 5] ! 0)
       = description ([milk_todo, make_todo ''c1'' ''eggs'' 5] ! 0)
   \<and> [milk_todo\<lparr>completed := True, updatedAt := 20\<rparr>, make_todo ''c1'' ''eggs'' 5] ! 1
       = [milk_todo, make_todo ''c1'' ''eggs'' 5] ! 1
   \<and> json_body (json_request blank_description_body) = Some blank_description_body
   \<and> trim (ascii ''  '') = []
   \<and> PATCH (env_at 20 ''c9'') [milk_todo, make_todo ''c1'' ''eggs'' 5]
         (json_request blank_description_body)
       = (\<lparr>status = 200, payload = TodoJson (milk_todo\<lparr>description := None, updatedAt := 20\<rparr>)\<rparr>,
          [milk_todo\<lparr>description := None, updatedAt := 20\<rparr>, make_todo ''c1'' ''eggs'' 5])
   \<and> description ([milk_todo\<lparr>description := None, updatedAt := 20\<rparr>, make_todo ''c1'' ''eggs'' 5] ! 0)
       = None
   \<and> completed ([milk_todo\<lparr>description := None, updatedAt := 20\<rparr>, make_todo ''c1'' ''eggs'' 5] ! 0)
       = completed ([milk_todo, make_todo ''c1'' ''eggs'' 5] ! 0)
   \<and> title ([milk_todo\<lparr>description := None, updatedAt := 20\<rparr>, make_todo ''c1'' ''eggs'' 5] ! 0)
       = title ([milk_todo, make_todo ''c1'' ''eggs'' 5] ! 0)"
proof -
  let ?e = "env_at 20 ''c9''"
  let ?s = "[milk_todo, make_todo ''c1'' ''eggs'' 5]"
  let ?p = "map_of (rev [(ascii ''id'', JStr (ascii ''c0'')), (ascii ''completed'', JBool True)])"
  let ?r = "\<lparr>status = 200, payload = TodoJson (milk_todo\<lparr>completed := True, updatedAt := 20\<rparr>)\<rparr>"
  let ?s' = "[milk_todo\<lparr>completed := True, updatedAt := 20\<rparr>, make_todo ''c1'' ''eggs'' 5]"
  let ?q = "map_of (rev [(ascii ''id'', JStr (ascii ''c0'')), (ascii ''description'', JStr (ascii ''  ''))])"
  let ?r2 = "\<lparr>status = 200, payload = TodoJson (milk_todo\<lparr>description := None, updatedAt := 20\<rparr>)\<rparr>"
  let ?s2 = "[milk_todo\<lparr>description := None, updatedAt := 20\<rparr>, make_todo ''c1'' ''eggs'' 5]"
  have h1: "json_body (json_request toggle_body) = Some toggle_body"
    by (simp add: json_request_def)
  have h2: "destructure toggle_body = Inr ?p" by (simp add: toggle_body_def object_def)
  have h3: "?p (ascii ''id'') = Some (JStr (ascii ''c0''))" by (simp add: ascii_def)
  have h4: "PATCH ?e ?s (json_request toggle_body) = (?r, ?s')"
    by (simp add: handler_defs store_defs example_defs ascii_def)
  have a1: "?p (ascii ''completed'') = Some (JBool True)" by (simp add: ascii_def)
  have a2: "?p (ascii ''title'') = None" by (simp add: ascii_def)
  have a3: "?p (ascii ''description'') = None" by (simp add: ascii_def)
  have a4: "status ?r = 200" by simp
  have a5: "JStr (ascii ''c0'') = JStr (id_todo (?s ! 0))" by (simp add: milk_todo_def)
  have a6: "JStr (ascii ''c0'') \<noteq> JStr (id_todo (?s ! 1))" by (simp add: make_todo_def ascii_def)
  have n0: "(0::nat) < length ?s" and n1: "(1::nat) < length ?s" by simp_all
  note t = update_changes_only_present_fields [OF h1 h2 h3 h4, THEN conjunct2, THEN conjunct1]
  from t n0 a1 a2 a3 a4 a5
  have c0: "completed (?s' ! 0) = True \<and> title (?s' ! 0) = title (?s ! 0)
      \<and> description (?s' ! 0) = description (?s ! 0)"
    by blast
  from t n1 a6 have c1: "?s' ! 1 = ?s ! 1" by blast
  have g1: "json_body (json_request blank_description_body) = Some blank_description_body"
    by (simp add: json_request_def)
  have g2: "destructure blank_description_body = Inr ?q"
    by (simp add: blank_description_body_def object_def)
  have g3: "?q (ascii ''id'') = Some (JStr (ascii ''c0''))" by (simp add: ascii_def)
  have g4: "PATCH ?e ?s (json_request blank_description_body) = (?r2, ?s2)"
    by (simp add: handler_defs store_defs example_defs string_defs)
  have b1: "?q (ascii ''completed'') = None" by (simp add: ascii_def)
  have b2: "?q (ascii ''title'') = None" by (simp add: ascii_def)
  have b3: "?q (ascii ''description'') = Some (JStr (ascii ''  ''))" by (simp add: ascii_def)
  have b4: "status ?r2 = 200" by simp
  have b5: "trim (ascii ''  '') = []" by (simp add: string_defs)
  note t2 = update_changes_only_present_fields [OF g1 g2 g3 g4, THEN conjunct2, THEN conjunct1]
  from t2 n0 b1 b2 b3 b4 b5 a5
  have c2: "description (?s2 ! 0) = None \<and> completed (?s2 ! 0) = completed (?s ! 0)
      \<and> title (?s2 ! 0) = title (?s ! 0)"
    by blast
  note c0a = c0 [THEN conjunct1] and c0b = c0 [THEN conjunct2, THEN conjunct1]
    and c0c = c0 [THEN conjunct2, THEN conjunct2]
  note c2a = c2 [THEN conjunct1] and c2b = c2 [THEN conjunct2, THEN conjunct1]
    and c2c = c2 [THEN conjunct2, THEN conjunct2]
  show ?thesis
    by (intro conjI) (rule h1 h4 c0a c0b c0c c1 g1 b5 g4 c2a c2b c2c)+
qed

section \<open>The list, newest first\<close>

lemma findMany_sorted:
  "sorted_wrt (\<lambda>x y. createdAt y \<le> createdAt x) (sort_key (\<lambda>t. - int (createdAt t)) s)"
proof -
  have "sorted (map (\<lambda>t. - int (createdAt t)) (sort_key (\<lambda>t. - int (createdAt t)) s))"
    by (rule sorted_sort_key)
  then show ?thesis by (simp add: sorted_map)
qed

lemma newer_comes_first:
  assumes "sorted_wrt (\<lambda>x y. createdAt y \<le> createdAt x) ts"
    and "a \<in> set ts" and "b \<in> set ts" and "createdAt a < createdAt b"
  shows "\<exists>i j. i < j \<and> j < length ts \<and> ts ! i = b \<and> ts ! j = a"
proof -
  from assms(2) obtain j where j: "j < length ts" "ts ! j = a"
    by (auto simp add: in_set_conv_nth)
  from assms(3) obtain i where i: "i < length ts" "ts ! i = b"
    by (auto simp add: in_set_conv_nth)
  have "\<not> j < i"
  proof
    assume "j < i"
    with assms(1) i(1) have "createdAt (ts ! i) \<le> createdAt (ts ! j)"
      using sorted_wrt_nth_less [of "\<lambda>x y. createdAt y \<le> createdAt x" ts j i] by simp
    with i(2) j(2) assms(4) show False by simp
  qed
  moreover from i(2) j(2) assms(4) have "i \<noteq> j" by auto
  ultimately have "i < j" by simp
  with i j show ?thesis by blast
qed

lemma POST_created:
  assumes "POST e s request = (\<lparr>status = 201, payload = TodoJson t\<rparr>, s')"
  shows "s' = s @ [t]" and "createdAt t = now e"
  using assms
  by (auto simp add: POST_def POST_try_def NextResponse_json_def todo_create_def Let_def
      split: sum.splits bool.splits if_splits)

text \<open>
  C6. When the database is reachable, the list handler answers 200 with every stored
  task, each as often as it is stored, ordered by \<open>createdAt\<close> descending. In
  particular, when task A was created and then task B, at a later reading of the
  clock, and the list is fetched from the rows the second create left, B stands before
  A in the list.
\<close>

theorem list_newest_first:
  assumes "db_up e"
  shows "\<exists>ts. GET e s = (\<lparr>status = 200, payload = TodosJson ts\<rparr>, s)
      \<and> mset ts = mset s
      \<and> sorted_wrt (\<lambda>x y. createdAt y \<le> createdAt x) ts
      \<and> (\<forall>e1 e2 s0 s1 requestA requestB a b.
            POST e1 s0 requestA = (\<lparr>status = 201, payload = TodoJson a\<rparr>, s1)
            \<and> POST e2 s1 requestB = (\<lparr>status = 201, payload = TodoJson b\<rparr>, s)
            \<and> now e1 < now e2
          \<longrightarrow> (\<exists>i j. i < j \<and> j < length ts \<and> ts ! i = b \<and> ts ! j = a))"
proof -
  define ts where "ts = sort_key (\<lambda>t. - int (createdAt t)) s"
  from assms have get: "GET e s = (\<lparr>status = 200, payload = TodosJson ts\<rparr>, s)"
    by (simp add: GET_def GET_try_def findMany_def NextResponse_json_def ts_def)
  have perm: "mset ts = mset s" by (simp add: ts_def)
  have sorted: "sorted_wrt (\<lambda>x y. createdAt y \<le> createdAt x) ts"
    unfolding ts_def by (rule findMany_sorted)
  have order: "\<exists>i j. i < j \<and> j < length ts \<and> ts ! i = b \<and> ts ! j = a"
    if a: "POST e1 s0 requestA = (\<lparr>status = 201, payload = TodoJson a\<rparr>, s1)"
      and b: "POST e2 s1 requestB = (\<lparr>status = 201, payload = TodoJson b\<rparr>, s)"
      and later: "now e1 < now e2"
    for e1 e2 s0 s1 requestA requestB a b
  proof -
    from POST_created [OF a] POST_created [OF b]
    have "s = s0 @ [a, b]" and "createdAt a = now e1" and "createdAt b = now e2" by simp_all
    with later have "a \<in> set ts" and "b \<in> set ts" and "createdAt a < createdAt b"
      by (simp_all add: ts_def)
    with sorted show ?thesis by (simp add: newer_comes_first)
  qed
  from get perm sorted order show ?thesis by blast
qed

theorem list_newest_first_witness:
  "db_up (env_at 30 ''c9'')
   \<and> POST (env_at 10 ''c1'') [] (json_request (object [(''title'', JStr (ascii ''milk''))]))
       = (\<lparr>status = 201, payload = TodoJson (make_todo ''c1'' ''milk'' 10)\<rparr>,
          [make_todo ''c1'' ''milk'' 10])
   \<and> POST (env_at 20 ''c2'') [make_todo ''c1'' ''milk'' 10]
         (json_request (object [(''title'', JStr (ascii ''eggs''))]))
       = (\<lparr>status = 201, payload = TodoJson (make_todo ''c2'' ''eggs'' 20)\<rparr>,
          [make_todo ''c1'' ''milk'' 10, make_todo ''c2'' ''eggs'' 20])
   \<and> now (env_at 10 ''c1'') < now (env_at 20 ''c2'')
   \<and> GET (env_at 30 ''c9'') [make_todo ''c1'' ''milk'' 10, make_todo ''c2'' ''eggs'' 20]
       = (\<lparr>status = 200,
           payload = TodosJson [make_todo ''c2'' ''eggs'' 20, make_todo ''c1'' ''milk'' 10]\<rparr>,
          [make_todo ''c1'' ''milk'' 10, make_todo ''c2'' ''eggs'' 20])
   \<and> (\<exists>ts. GET (env_at 30 ''c9'') [make_todo ''c1'' ''milk'' 10, make_todo ''c2'' ''eggs'' 20]
             = (\<lparr>status = 200, payload = TodosJson ts\<rparr>,
                [make_todo ''c1'' ''milk'' 10, make_todo ''c2'' ''eggs'' 20])
           \<and> mset ts = mset [make_todo ''c1'' ''milk'' 10, make_todo ''c2'' ''eggs'' 20]
           \<and> sorted_wrt (\<lambda>x y. createdAt y \<le> createdAt x) ts
           \<and> (\<exists>i j. i < j \<and> j < length ts \<and> ts ! i = make_todo ''c2'' ''eggs'' 20
                  \<and> ts ! j = make_todo ''c1'' ''milk'' 10))"
proof -
  let ?a = "make_todo ''c1'' ''milk'' 10"
  let ?b = "make_todo ''c2'' ''eggs'' 20"
  have h: "db_up (env_at 30 ''c9'')" by (simp add: env_at_def)
  have a: "POST (env_at 10 ''c1'') [] (json_request (object [(''title'', JStr (ascii ''milk''))]))
      = (\<lparr>status = 201, payload = TodoJson ?a\<rparr>, [?a])"
    by (simp add: handler_defs store_defs example_defs string_defs)
  have b: "POST (env_at 20 ''c2'') [?a] (json_request (object [(''title'', JStr (ascii ''eggs''))]))
      = (\<lparr>status = 201, payload = TodoJson ?b\<rparr>, [?a, ?b])"
    by (simp add: handler_defs store_defs example_defs string_defs)
  have l: "now (env_at 10 ''c1'') < now (env_at 20 ''c2'')" by (simp add: env_at_def)
  have g: "GET (env_at 30 ''c9'') [?a, ?b] = (\<lparr>status = 200, payload = TodosJson [?b, ?a]\<rparr>, [?a, ?b])"
    by (simp add: handler_defs store_defs example_defs)
  from list_newest_first [OF h, of "[?a, ?b]"]
  obtain ts where t1: "GET (env_at 30 ''c9'') [?a, ?b] = (\<lparr>status = 200, payload = TodosJson ts\<rparr>, [?a, ?b])"
    and t2: "mset ts = mset [?a, ?b]"
    and t3: "sorted_wrt (\<lambda>x y. createdAt y \<le> createdAt x) ts"
    and t4: "\<forall>e1 e2 s0 s1 requestA requestB a b.
            POST e1 s0 requestA = (\<lparr>status = 201, payload = TodoJson a\<rparr>, s1)
            \<and> POST e2 s1 requestB = (\<lparr>status = 201, payload = TodoJson b\<rparr>, [?a, ?b])
            \<and> now e1 < now e2
          \<longrightarrow> (\<exists>i j. i < j \<and> j < length ts \<and> ts ! i = b \<and> ts ! j = a)"
    by blast
  from t4 a b l have t5: "\<exists>i j. i < j \<and> j < length ts \<and> ts ! i = ?b \<and> ts ! j = ?a"
    by blast
  from t1 t2 t3 t5 have e: "\<exists>ts. GET (env_at 30 ''c9'') [?a, ?b]
             = (\<lparr>status = 200, payload = TodosJson ts\<rparr>, [?a, ?b])
           \<and> mset ts = mset [?a, ?b]
           \<and> sorted_wrt (\<lambda>x y. createdAt y \<le> createdAt x) ts
           \<and> (\<exists>i j. i < j \<and> j < length ts \<and> ts ! i = ?b \<and> ts ! j = ?a)"
    by blast
  show ?thesis
    by (intro conjI) (rule h a b l g e)+
qed

section \<open>A title emptied by an update\<close>

text \<open>
  C4. The update handler trims a title that was sent and stores it without the check
  the create handler makes. Creating a task and then updating it with a title of
  three spaces is answered 200, and the stored title is the empty string.
\<close>

theorem update_stores_empty_title:
  "POST (env_at 10 ''c1'') [] (json_request (object [(''title'', JStr (ascii ''milk''))]))
     = (\<lparr>status = 201, payload = TodoJson (make_todo ''c1'' ''milk'' 10)\<rparr>,
        [make_todo ''c1'' ''milk'' 10])
   \<and> PATCH (env_at 20 ''c2'') [make_todo ''c1'' ''milk'' 10]
        (json_request (object [(''id'', JStr (ascii ''c1'')), (''title'', JStr (ascii ''   ''))]))
     = (\<lparr>status = 200, payload = TodoJson ((make_todo ''c1'' ''milk'' 10)\<lparr>title := [], updatedAt := 20\<rparr>)\<rparr>,
        [(make_todo ''c1'' ''milk'' 10)\<lparr>title := [], updatedAt := 20\<rparr>])
   \<and> title (hd [(make_todo ''c1'' ''milk'' 10)\<lparr>title := [], updatedAt := 20\<rparr>]) = []"
  by (simp add: handler_defs store_defs example_defs string_defs)

end
